theory Spec2Isabelle
  imports
    Complex_Main
    "HOL-Library.Word"
    "HOL-Library.AList"
    "HOL-Library.FSet"
    "HOL-Library.Char_ord"
    "HOL-Library.List_Lexorder"
begin

unbundle bit_operations_syntax

section \<open>Python values\<close>

text \<open>
  The bus, the mappers and the hub work on JSON-shaped dictionaries
  (\<^verbatim>\<open>Dict[str, Any]\<close>).  A value is one of the JSON shapes.  Python floats are
  modelled as exact rationals: rounding is outside this model.  Strings are the byte
  strings of their UTF-8 encoding.
\<close>

datatype pyval =
    PNone
  | PBool bool
  | PInt int
  | PFloat rat
  | PStr string
  | PList "pyval list"
  | PDict "(string \<times> pyval) list"

type_synonym pydict = "(string \<times> pyval) list"

text \<open>Python truthiness (\<^verbatim>\<open>if x\<close>, \<^verbatim>\<open>not x\<close>, \<^verbatim>\<open>x or y\<close>).\<close>

fun truthy :: "pyval \<Rightarrow> bool" where
  "truthy PNone = False"
| "truthy (PBool b) = b"
| "truthy (PInt i) = (i \<noteq> 0)"
| "truthy (PFloat r) = (r \<noteq> 0)"
| "truthy (PStr s) = (s \<noteq> [])"
| "truthy (PList xs) = (xs \<noteq> [])"
| "truthy (PDict kvs) = (kvs \<noteq> [])"

text \<open>
  \<^verbatim>\<open>d.get(k)\<close> and \<^verbatim>\<open>d.get(k, default)\<close>.  A dictionary is an association list in
  insertion order; \<^const>\<open>AList.update\<close> overwrites in place or appends, as a Python
  assignment \<^verbatim>\<open>d[k] = v\<close> does.
\<close>

definition dict_get :: "pydict \<Rightarrow> string \<Rightarrow> pyval" where
  "dict_get d k = (case map_of d k of None \<Rightarrow> PNone | Some v \<Rightarrow> v)"

definition dict_get_default :: "pydict \<Rightarrow> string \<Rightarrow> pyval \<Rightarrow> pyval" where
  "dict_get_default d k dflt = (case map_of d k of None \<Rightarrow> dflt | Some v \<Rightarrow> v)"

text \<open>
  Membership in a Python \<^verbatim>\<open>set\<close> or \<^verbatim>\<open>dict\<close> goes through \<^verbatim>\<open>hash\<close> and \<^verbatim>\<open>==\<close>:
  \<^verbatim>\<open>True\<close>, \<^verbatim>\<open>1\<close> and \<^verbatim>\<open>1.0\<close> are one key, lists and dictionaries are unhashable
  and raise \<^verbatim>\<open>TypeError\<close>.
\<close>

datatype hkey = KNone | KNum rat | KStr string

fun hash_key :: "pyval \<Rightarrow> hkey option" where
  "hash_key PNone = Some KNone"
| "hash_key (PBool b) = Some (KNum (if b then 1 else 0))"
| "hash_key (PInt i) = Some (KNum (of_int i))"
| "hash_key (PFloat r) = Some (KNum r)"
| "hash_key (PStr s) = Some (KStr s)"
| "hash_key (PList xs) = None"
| "hash_key (PDict kvs) = None"

datatype exn =
    TypeError
  | ValueError
  | AttributeError
  | KeyError
  | UnboundLocalError

text \<open>
  A slice \<^verbatim>\<open>xs[:n]\<close>: a negative \<^verbatim>\<open>n\<close> counts from the end.
\<close>

definition slice_to :: "int \<Rightarrow> 'a list \<Rightarrow> 'a list" where
  "slice_to n xs =
     (if 0 \<le> n then take (nat n) xs else take (length xs - nat (- n)) xs)"

section \<open>Date and time values\<close>

text \<open>
  A \<^verbatim>\<open>datetime\<close> object: the wall-clock fields and the UTC offset of its
  \<^verbatim>\<open>tzinfo\<close> in seconds (\<open>None\<close> for a naive value).
\<close>

record datetime =
  year :: nat
  month :: nat
  day :: nat
  hour :: nat
  minute :: nat
  second :: nat
  microsecond :: nat
  utcoffset :: "int option"

definition digit_char :: "nat \<Rightarrow> char" where
  "digit_char n = ''0123456789'' ! (n mod 10)"

text \<open>\<^verbatim>\<open>'%02d'\<close>, \<^verbatim>\<open>'%04d'\<close> and \<^verbatim>\<open>'%06d'\<close> on numbers that fit the width.\<close>

definition pad2 :: "nat \<Rightarrow> string" where
  "pad2 n = [digit_char (n div 10), digit_char n]"

definition pad4 :: "nat \<Rightarrow> string" where
  "pad4 n = [digit_char (n div 1000), digit_char (n div 100), digit_char (n div 10), digit_char n]"

definition pad6 :: "nat \<Rightarrow> string" where
  "pad6 n = [digit_char (n div 100000), digit_char (n div 10000), digit_char (n div 1000),
             digit_char (n div 100), digit_char (n div 10), digit_char n]"

definition format_offset :: "int \<Rightarrow> string" where
  "format_offset off =
     (if off < 0 then ''-'' else ''+'') @ pad2 (nat \<bar>off\<bar> div 3600) @ '':'' @
     pad2 (nat \<bar>off\<bar> div 60 mod 60) @
     (if nat \<bar>off\<bar> mod 60 = 0 then [] else '':'' @ pad2 (nat \<bar>off\<bar> mod 60))"

definition isoformat :: "datetime \<Rightarrow> string" where
  "isoformat dt =
     pad4 (year dt) @ ''-'' @ pad2 (month dt) @ ''-'' @ pad2 (day dt) @ ''T'' @
     pad2 (hour dt) @ '':'' @ pad2 (minute dt) @ '':'' @ pad2 (second dt) @
     (if microsecond dt = 0 then [] else ''.'' @ pad6 (microsecond dt)) @
     (case utcoffset dt of None \<Rightarrow> [] | Some off \<Rightarrow> format_offset off)"

definition digit_value :: "char \<Rightarrow> nat option" where
  "digit_value c =
     map_of [(CHR ''0'', 0), (CHR ''1'', 1), (CHR ''2'', 2), (CHR ''3'', 3), (CHR ''4'', 4),
             (CHR ''5'', 5), (CHR ''6'', 6), (CHR ''7'', 7), (CHR ''8'', 8), (CHR ''9'', 9)] c"

fun number_from :: "nat \<Rightarrow> string \<Rightarrow> nat option" where
  "number_from acc [] = Some acc"
| "number_from acc (c # cs) =
     (case digit_value c of None \<Rightarrow> None | Some d \<Rightarrow> number_from (10 * acc + d) cs)"

definition days_in_month :: "nat \<Rightarrow> nat \<Rightarrow> nat" where
  "days_in_month y m =
     (if m = 2 then (if y mod 4 = 0 \<and> (y mod 100 \<noteq> 0 \<or> y mod 400 = 0) then 29 else 28)
      else if m \<in> {4, 6, 9, 11} then 30 else 31)"

text \<open>The zone suffix: nothing, \<^verbatim>\<open>Z\<close>, or a sign and \<^verbatim>\<open>HH:MM\<close>.\<close>

definition parse_zone :: "string \<Rightarrow> int option option" where
  "parse_zone z =
     (if z = [] then Some None
      else if z = ''Z'' then Some (Some 0)
      else if length z = 6 \<and> (z ! 0 = CHR ''+'' \<or> z ! 0 = CHR ''-'') \<and> z ! 3 = CHR '':'' then
        (case (number_from 0 (take 2 (drop 1 z)), number_from 0 (drop 4 z)) of
           (Some h, Some m) \<Rightarrow>
             if h < 24 \<and> m < 60
             then Some (Some ((if z ! 0 = CHR ''-'' then - 1 else 1) * int (h * 3600 + m * 60)))
             else None
         | _ \<Rightarrow> None)
      else None)"

definition parse_iso8601 :: "string \<Rightarrow> datetime option" where
  "parse_iso8601 s =
     (if length s < 19 \<or> s ! 4 \<noteq> CHR ''-'' \<or> s ! 7 \<noteq> CHR ''-'' \<or> s ! 10 \<noteq> CHR ''T'' \<or>
         s ! 13 \<noteq> CHR '':'' \<or> s ! 16 \<noteq> CHR '':'' then None
      else
        (case (number_from 0 (take 4 s), number_from 0 (take 2 (drop 5 s)),
               number_from 0 (take 2 (drop 8 s)), number_from 0 (take 2 (drop 11 s)),
               number_from 0 (take 2 (drop 14 s)), number_from 0 (take 2 (drop 17 s)),
               parse_zone (drop 19 s)) of
           (Some y, Some mo, Some d, Some h, Some mi, Some sec, Some z) \<Rightarrow>
             if 1 \<le> y \<and> 1 \<le> mo \<and> mo \<le> 12 \<and> 1 \<le> d \<and> d \<le> days_in_month y mo \<and>
                h < 24 \<and> mi < 60 \<and> sec < 60
             then Some \<lparr>year = y, month = mo, day = d, hour = h, minute = mi, second = sec,
                        microsecond = 0, utcoffset = z\<rparr>
             else None
         | _ \<Rightarrow> None))"

text \<open>
  \<^verbatim>\<open>dt.isoformat()\<close> is \<^const>\<open>isoformat\<close>.  \<^const>\<open>parse_iso8601\<close> reads the texts
  \<^verbatim>\<open>YYYY-MM-DDTHH:MM:SS\<close> with an optional zone (\<^verbatim>\<open>Z\<close> or \<^verbatim>\<open>+HH:MM\<close>), as
  \<^verbatim>\<open>dateutil.parser.parse\<close> does on such a text; it stands for the library where a
  concrete input is evaluated.
\<close>

text \<open>
  Library code the repository calls is a parameter of the model:
  \<^verbatim>\<open>dateutil.parser.parse\<close> (\<open>None\<close> where it raises) and the text Python prints
  for a float inside an f-string.
\<close>

record py_env =
  date_parse :: "string \<Rightarrow> datetime option"
  float_str :: "rat \<Rightarrow> string"

text \<open>The decimal digits of a natural number.\<close>

fun decimal :: "nat \<Rightarrow> string" where
  "decimal n = (if n < 10 then [digit_char n] else decimal (n div 10) @ [digit_char n])"

declare decimal.simps [simp del]

text \<open>
  The environment of the concrete examples: ISO-8601 time stamps, and clock readings
  that are whole numbers of seconds (\<^verbatim>\<open>str(5.0)\<close> is \<^verbatim>\<open>5.0\<close>).
\<close>

definition example_env :: py_env where
  "example_env =
     \<lparr>date_parse = parse_iso8601, float_str = (\<lambda>r. decimal (nat \<lfloor>r\<rfloor>) @ ''.0'')\<rparr>"

section \<open>storage/schemas.py: validate_raw_item\<close>

text \<open>
  \<^verbatim>\<open>date_parser.parse\<close> raises \<^verbatim>\<open>TypeError\<close> on a value that is not a string; the
  \<^verbatim>\<open>except Exception\<close> of \<^verbatim>\<open>validate_raw_item\<close> turns every failure into
  \<^verbatim>\<open>False\<close>.
\<close>

definition parse_value :: "py_env \<Rightarrow> pyval \<Rightarrow> datetime option" where
  "parse_value env v = (case v of PStr s \<Rightarrow> date_parse env s | _ \<Rightarrow> None)"

definition required_fields :: "string list" where
  "required_fields = [''title'', ''link'', ''published'', ''source'', ''publisher'']"

definition validate_raw_item :: "py_env \<Rightarrow> pydict \<Rightarrow> bool" where
  "validate_raw_item env item_data =
     (if \<exists>f \<in> set required_fields. \<not> truthy (dict_get item_data f) then False
      else (case parse_value env (dict_get item_data ''published'') of
              None \<Rightarrow> False
            | Some dt \<Rightarrow> True))"

section \<open>bus/stream.py: the event bus\<close>

record StreamMessage =
  msg_id :: pyval
  msg_channel :: string
  msg_data :: pydict
  msg_timestamp :: rat
  msg_source :: string

record RateLimiter =
  tokens_per_second :: rat
  max_tokens :: int
  tokens :: rat
  last_update :: rat

text \<open>\<^verbatim>\<open>RateLimiter.__init__\<close>; \<open>now\<close> is the reading of \<^verbatim>\<open>time.time()\<close>.\<close>

definition RateLimiter_init :: "rat \<Rightarrow> int \<Rightarrow> rat \<Rightarrow> RateLimiter" where
  "RateLimiter_init rate cap now =
     \<lparr>tokens_per_second = rate, max_tokens = cap, tokens = of_int cap, last_update = now\<rparr>"

text \<open>\<^verbatim>\<open>RateLimiter.allow\<close>: the answer and the updated limiter.\<close>

definition allow :: "RateLimiter \<Rightarrow> rat \<Rightarrow> bool \<times> RateLimiter" where
  "allow rl now =
     (let elapsed = now - last_update rl;
          refilled = min (of_int (max_tokens rl)) (tokens rl + elapsed * tokens_per_second rl);
          rl1 = rl\<lparr>tokens := refilled, last_update := now\<rparr>
      in if 1 \<le> refilled then (True, rl1\<lparr>tokens := refilled - 1\<rparr>)
         else (False, rl1))"

text \<open>
  The bus.  \<^verbatim>\<open>channels\<close> and \<^verbatim>\<open>subscribers\<close> are \<^verbatim>\<open>defaultdict\<close>s: total functions
  whose default is the empty deque or list.  A subscriber callback is named by a number;
  what a callback does with a message is outside the bus, and an exception it raises is
  caught at lines 198-201.
\<close>

record EventBus =
  max_recent_items :: int
  recent_ttl_seconds :: rat
  default_rate_limit :: rat
  channels :: "string \<Rightarrow> StreamMessage list"
  recent_ids :: "hkey fset"
  recent_timestamps :: "(hkey \<times> rat) list"
  rate_limiters :: "(string \<times> RateLimiter) list"
  subscribers :: "string \<Rightarrow> nat list"

definition EventBus_init :: "int \<Rightarrow> rat \<Rightarrow> rat \<Rightarrow> EventBus" where
  "EventBus_init mri ttl rate =
     \<lparr>max_recent_items = mri, recent_ttl_seconds = ttl, default_rate_limit = rate,
      channels = (\<lambda>c. []), recent_ids = {||}, recent_timestamps = [],
      rate_limiters = [], subscribers = (\<lambda>c. [])\<rparr>"

text \<open>\<^verbatim>\<open>int(x)\<close> on a number truncates towards zero.\<close>

definition py_int :: "rat \<Rightarrow> int" where
  "py_int x = (if 0 \<le> x then \<lfloor>x\<rfloor> else \<lceil>x\<rceil>)"

text \<open>\<^verbatim>\<open>_get_rate_limiter\<close>: the limiter of a source, created on first use.\<close>

definition get_rate_limiter :: "EventBus \<Rightarrow> string \<Rightarrow> rat \<Rightarrow> RateLimiter \<times> EventBus" where
  "get_rate_limiter bus src now =
     (case map_of (rate_limiters bus) src of
        Some rl \<Rightarrow> (rl, bus)
      | None \<Rightarrow>
          (let rl = RateLimiter_init (default_rate_limit bus)
                       (py_int (default_rate_limit bus * 5)) now
           in (rl, bus\<lparr>rate_limiters := AList.update src rl (rate_limiters bus)\<rparr>)))"

text \<open>
  \<^verbatim>\<open>min(d.keys(), key=lambda x: d[x])\<close>: the first entry, in insertion order, whose
  time stamp is least; \<open>None\<close> where \<^verbatim>\<open>min\<close> raises \<^verbatim>\<open>ValueError\<close> on an empty
  dictionary.
\<close>

fun oldest_entry :: "(hkey \<times> rat) list \<Rightarrow> (hkey \<times> rat) option" where
  "oldest_entry [] = None"
| "oldest_entry (p # ps) =
     (case oldest_entry ps of
        None \<Rightarrow> Some p
      | Some q \<Rightarrow> if snd q < snd p then Some q else Some p)"

text \<open>
  The \<^verbatim>\<open>while\<close> loop of \<^verbatim>\<open>_cleanup_recent\<close> (lines 130-135) on the pair of the id
  set and the time-stamp dictionary.
\<close>

function enforce_max ::
  "int \<Rightarrow> hkey fset \<Rightarrow> (hkey \<times> rat) list \<Rightarrow> exn option \<times> hkey fset \<times> (hkey \<times> rat) list" where
  "enforce_max cap ids ts =
     (if int (fcard ids) > cap then
        (case oldest_entry ts of
           None \<Rightarrow> (Some ValueError, ids, ts)
         | Some (k, t) \<Rightarrow> enforce_max cap (ids |-| {|k|}) (AList.delete k ts))
      else (None, ids, ts))"
  by pat_completeness auto
termination
proof (relation "measure (\<lambda>(cap, ids, ts). length ts)")
  show "wf (measure (\<lambda>(cap, ids, ts). length ts))"
    by simp
next
  fix cap :: int and ids :: "hkey fset" and ts :: "(hkey \<times> rat) list" and p k t
  assume old: "oldest_entry ts = Some p" and p: "(k, t) = p"
  have mem: "oldest_entry qs = Some q \<Longrightarrow> q \<in> set qs" for qs q
    by (induction qs arbitrary: q) (auto split: option.splits if_splits)
  from old p have "(k, t) \<in> set ts"
    using mem by blast
  then have "length (filter (\<lambda>(k', _). k \<noteq> k') ts) < length ts"
    by (intro length_filter_less [where x = "(k, t)"]) auto
  then show "((cap, ids |-| {|k|}, AList.delete k ts), cap, ids, ts)
               \<in> measure (\<lambda>(cap, ids, ts). length ts)"
    by (simp add: AList.delete_eq)
qed

declare enforce_max.simps [simp del]

text \<open>
  \<^verbatim>\<open>_cleanup_recent\<close>: expired entries are dropped one id at a time, then the size
  cap is enforced.  An exception leaves the bus as the loop had it when it was raised.
\<close>

definition cleanup_recent :: "EventBus \<Rightarrow> rat \<Rightarrow> exn option \<times> EventBus" where
  "cleanup_recent bus now =
     (let cutoff = now - recent_ttl_seconds bus;
          expired_ids = map fst (filter (\<lambda>(k, ts). ts < cutoff) (recent_timestamps bus));
          ids1 = fold (\<lambda>k ids. ids |-| {|k|}) expired_ids (recent_ids bus);
          ts1 = fold AList.delete expired_ids (recent_timestamps bus);
          (e, ids2, ts2) = enforce_max (max_recent_items bus) ids1 ts1
      in (e, bus\<lparr>recent_ids := ids2, recent_timestamps := ts2\<rparr>))"

text \<open>\<^verbatim>\<open>seen_recent\<close>: clean up, then \<^verbatim>\<open>message_id in self.recent_ids\<close>.\<close>

definition seen_recent :: "EventBus \<Rightarrow> pyval \<Rightarrow> rat \<Rightarrow> (exn + bool) \<times> EventBus" where
  "seen_recent bus message_id now =
     (case cleanup_recent bus now of
        (Some e, bus1) \<Rightarrow> (Inl e, bus1)
      | (None, bus1) \<Rightarrow>
          (case hash_key message_id of
             None \<Rightarrow> (Inl TypeError, bus1)
           | Some k \<Rightarrow> (Inr (k |\<in>| recent_ids bus1), bus1)))"

text \<open>\<^verbatim>\<open>_mark_seen\<close>.\<close>

definition mark_seen :: "EventBus \<Rightarrow> pyval \<Rightarrow> rat \<Rightarrow> exn option \<times> EventBus" where
  "mark_seen bus message_id now =
     (case hash_key message_id of
        None \<Rightarrow> (Some TypeError, bus)
      | Some k \<Rightarrow>
          (None, bus\<lparr>recent_ids := finsert k (recent_ids bus),
                         recent_timestamps := AList.update k now (recent_timestamps bus)\<rparr>))"

text \<open>
  \<^verbatim>\<open>deque(maxlen=n).append(x)\<close>: the element goes to the right end, and a deque
  longer than \<open>n\<close> loses its leftmost element.
\<close>

definition deque_append :: "nat \<Rightarrow> 'a list \<Rightarrow> 'a \<Rightarrow> 'a list" where
  "deque_append maxlen xs x = (let ys = xs @ [x] in if length ys > maxlen then tl ys else ys)"

text \<open>
  \<^verbatim>\<open>xadd_json\<close> reads the clock up to six times; the readings are an input, in the
  order of the source: the default id (line 163), the creation of a limiter (line 36),
  \<^verbatim>\<open>allow\<close> (line 42), \<^verbatim>\<open>_cleanup_recent\<close> (line 119), the message's time stamp
  (line 185) and \<^verbatim>\<open>_mark_seen\<close> (line 141).
\<close>

record ticks =
  t_default_id :: rat
  t_limiter_init :: rat
  t_allow :: rat
  t_cleanup :: rat
  t_message :: rat
  t_mark :: rat

text \<open>
  Lines 156-167: the message id, or \<open>None\<close> where the publish is rejected by the
  validation of the \<^verbatim>\<open>news.raw\<close> channel.
\<close>

definition message_id_of :: "py_env \<Rightarrow> ticks \<Rightarrow> string \<Rightarrow> pydict \<Rightarrow> pyval option" where
  "message_id_of env tk channel data =
     (if channel = ''news.raw'' then
        (if \<not> validate_raw_item env data then None
         else Some (dict_get data ''id''))
      else Some (dict_get_default data ''id''
                   (PStr (channel @ '':'' @ float_str env (t_default_id tk)))))"

definition xadd_json ::
  "py_env \<Rightarrow> EventBus \<Rightarrow> ticks \<Rightarrow> string \<Rightarrow> pydict \<Rightarrow> string \<Rightarrow> (exn + bool) \<times> EventBus" where
  "xadd_json env bus tk channel data src =
     (case message_id_of env tk channel data of
        None \<Rightarrow> (Inr False, bus)
      | Some message_id \<Rightarrow>
          if \<not> truthy message_id then (Inr False, bus)
          else
            (let (rl, bus1) = get_rate_limiter bus src (t_limiter_init tk);
                 (ok, rl1) = allow rl (t_allow tk);
                 bus2 = bus1\<lparr>rate_limiters := AList.update src rl1 (rate_limiters bus1)\<rparr>
             in if \<not> ok then (Inr False, bus2)
                else
                  (case seen_recent bus2 message_id (t_cleanup tk) of
                     (Inl e, bus3) \<Rightarrow> (Inl e, bus3)
                   | (Inr seen, bus3) \<Rightarrow>
                       if seen then (Inr False, bus3)
                       else
                       (let message = \<lparr>msg_id = message_id, msg_channel = channel,
                                         msg_data = data, msg_timestamp = t_message tk,
                                         msg_source = src\<rparr>;
                            bus4 = bus3\<lparr>channels := (channels bus3)
                                     (channel := deque_append 1000 (channels bus3 channel) message)\<rparr>
                        in case mark_seen bus4 message_id (t_mark tk) of
                             (Some e, bus5) \<Rightarrow> (Inl e, bus5)
                           | (None, bus5) \<Rightarrow> (Inr True, bus5)))))"

text \<open>\<^verbatim>\<open>get_recent_messages\<close>, \<^verbatim>\<open>subscribe\<close> and \<^verbatim>\<open>unsubscribe\<close>.\<close>

definition get_recent_messages :: "EventBus \<Rightarrow> string \<Rightarrow> int \<Rightarrow> pydict list" where
  "get_recent_messages bus channel limit =
     map msg_data (slice_to limit (rev (channels bus channel)))"

definition subscribe :: "EventBus \<Rightarrow> string \<Rightarrow> nat \<Rightarrow> EventBus" where
  "subscribe bus channel callback =
     bus\<lparr>subscribers := (subscribers bus)(channel := subscribers bus channel @ [callback])\<rparr>"

definition unsubscribe :: "EventBus \<Rightarrow> string \<Rightarrow> nat \<Rightarrow> EventBus" where
  "unsubscribe bus channel callback =
     bus\<lparr>subscribers := (subscribers bus)(channel := remove1 callback (subscribers bus channel))\<rparr>"


text \<open>
  A sequence of publishes on one channel from one source.  The \<open>i\<close>-th publish happens
  at the instant \<open>t\<^sub>i\<close>: each of its clock readings is \<open>t\<^sub>i\<close>.
\<close>

definition same_instant :: "rat \<Rightarrow> ticks" where
  "same_instant t =
     \<lparr>t_default_id = t, t_limiter_init = t, t_allow = t, t_cleanup = t, t_message = t,
      t_mark = t\<rparr>"




text \<open>A valid item of the concrete examples, with the id \<open>i\<close>.\<close>

definition example_item :: "string \<Rightarrow> pydict" where
  "example_item i =
     [(''id'', PStr i), (''topic'', PStr ''test''), (''title'', PStr ''A''),
      (''link'', PStr ''http://x/1''), (''published'', PStr ''2024-01-01T00:00:30Z''),
      (''source'', PStr ''test''), (''publisher'', PStr ''P'')]"

section \<open>Properties of the event bus\<close>

lemma channels_cleanup_recent: "channels (snd (cleanup_recent bus now)) = channels bus"
  by (simp add: cleanup_recent_def Let_def split: prod.splits)

lemma channels_seen_recent: "channels (snd (seen_recent bus mid now)) = channels bus"
  using channels_cleanup_recent [of bus now]
  by (auto simp: seen_recent_def split: prod.splits option.splits)

lemma channels_mark_seen: "channels (snd (mark_seen bus mid now)) = channels bus"
  by (simp add: mark_seen_def split: option.splits)

lemma channels_get_rate_limiter: "channels (snd (get_rate_limiter bus src now)) = channels bus"
  by (simp add: get_rate_limiter_def Let_def split: option.splits)

lemma length_deque_append: "length xs \<le> n \<Longrightarrow> length (deque_append n xs x) \<le> n"
  by (simp add: deque_append_def Let_def)

lemma deque_append_full: "length xs = n \<Longrightarrow> 0 < n \<Longrightarrow> deque_append n xs x = tl xs @ [x]"
  by (cases xs) (simp_all add: deque_append_def Let_def)

lemma deque_append_room: "length xs < n \<Longrightarrow> deque_append n xs x = xs @ [x]"
  by (simp add: deque_append_def Let_def)

lemma seen_recent_hashable:
  "seen_recent bus mid now = (Inr b, bus') \<Longrightarrow> \<exists>k. hash_key mid = Some k"
  by (auto simp: seen_recent_def split: prod.splits option.splits)

text \<open>What a publish does to the channel histories.\<close>

lemma channels_xadd_json:
  "channels (snd (xadd_json env bus tk ch d src)) =
     (if fst (xadd_json env bus tk ch d src) = Inr True
      then (channels bus)(ch := deque_append 1000 (channels bus ch)
             \<lparr>msg_id = the (message_id_of env tk ch d), msg_channel = ch, msg_data = d,
              msg_timestamp = t_message tk, msg_source = src\<rparr>)
      else channels bus)"
proof (cases "message_id_of env tk ch d")
  case None
  then show ?thesis by (simp add: xadd_json_def)
next
  case (Some mid)
  obtain rl bus1 where g: "get_rate_limiter bus src (t_limiter_init tk) = (rl, bus1)"
    by (cases "get_rate_limiter bus src (t_limiter_init tk)")
  obtain ok rl1 where a: "allow rl (t_allow tk) = (ok, rl1)"
    by (cases "allow rl (t_allow tk)")
  define bus2 where "bus2 = bus1\<lparr>rate_limiters := AList.update src rl1 (rate_limiters bus1)\<rparr>"
  obtain r bus3 where s: "seen_recent bus2 mid (t_cleanup tk) = (r, bus3)"
    by (cases "seen_recent bus2 mid (t_cleanup tk)")
  have c1: "channels bus1 = channels bus"
    using channels_get_rate_limiter [of bus src "t_limiter_init tk"] g by simp
  have c2: "channels bus2 = channels bus"
    by (simp add: bus2_def c1)
  have c3: "channels bus3 = channels bus"
    using channels_seen_recent [of bus2 mid "t_cleanup tk"] s c2 by simp
  show ?thesis
    using Some g a s c1 c2 c3
    by (cases r) (auto simp: xadd_json_def Let_def bus2_def [symmetric] mark_seen_def
        dest!: seen_recent_hashable split: option.splits)
qed


lemma same_instant_sel [simp]:
  "t_default_id (same_instant t) = t" "t_limiter_init (same_instant t) = t"
  "t_allow (same_instant t) = t" "t_cleanup (same_instant t) = t"
  "t_message (same_instant t) = t" "t_mark (same_instant t) = t"
  by (simp_all add: same_instant_def)

text \<open>
  C10.  Every channel history holds at most 1000 messages: the bound holds for the
  fresh bus whatever its \<open>max_recent_items\<close>, every bus operation keeps it, an
  accepted publish into a channel holding 1000 messages drops the oldest one and puts
  the new message last, and an accepted publish into a shorter channel only appends.
\<close>

theorem channel_history_bounded:
  "(\<forall>c. length (channels (EventBus_init mri ttl rate) c) \<le> 1000) \<and>
   ((\<forall>c. length (channels bus c) \<le> 1000) \<longrightarrow>
      (\<forall>c. length (channels (snd (xadd_json env bus tk ch d src)) c) \<le> 1000) \<and>
      (\<forall>c. length (channels (snd (seen_recent bus mid now)) c) \<le> 1000) \<and>
      (\<forall>c. length (channels (snd (cleanup_recent bus now)) c) \<le> 1000) \<and>
      (\<forall>c. length (channels (snd (mark_seen bus mid now)) c) \<le> 1000) \<and>
      (\<forall>c. length (channels (subscribe bus ch cb) c) \<le> 1000) \<and>
      (\<forall>c. length (channels (unsubscribe bus ch cb) c) \<le> 1000) \<and>
      (fst (xadd_json env bus tk ch d src) = Inr True \<longrightarrow>
         (\<forall>c. c \<noteq> ch \<longrightarrow>
                channels (snd (xadd_json env bus tk ch d src)) c = channels bus c) \<and>
         channels (snd (xadd_json env bus tk ch d src)) ch =
           (if length (channels bus ch) = 1000 then tl (channels bus ch) else channels bus ch) @
           [\<lparr>msg_id = the (message_id_of env tk ch d), msg_channel = ch, msg_data = d,
             msg_timestamp = t_message tk, msg_source = src\<rparr>]))"
proof (intro conjI impI)
  show "\<forall>c. length (channels (EventBus_init mri ttl rate) c) \<le> 1000"
    by (simp add: EventBus_init_def)
next
  assume b: "\<forall>c. length (channels bus c) \<le> 1000"
  show "\<forall>c. length (channels (snd (xadd_json env bus tk ch d src)) c) \<le> 1000"
    using b by (simp add: channels_xadd_json length_deque_append)
  show "\<forall>c. length (channels (snd (seen_recent bus mid now)) c) \<le> 1000"
    using b by (simp add: channels_seen_recent)
  show "\<forall>c. length (channels (snd (cleanup_recent bus now)) c) \<le> 1000"
    using b by (simp add: channels_cleanup_recent)
  show "\<forall>c. length (channels (snd (mark_seen bus mid now)) c) \<le> 1000"
    using b by (simp add: channels_mark_seen)
  show "\<forall>c. length (channels (subscribe bus ch cb) c) \<le> 1000"
    using b by (simp add: subscribe_def)
  show "\<forall>c. length (channels (unsubscribe bus ch cb) c) \<le> 1000"
    using b by (simp add: unsubscribe_def)
next
  assume b: "\<forall>c. length (channels bus c) \<le> 1000"
    and acc: "fst (xadd_json env bus tk ch d src) = Inr True"
  show "\<forall>c. c \<noteq> ch \<longrightarrow> channels (snd (xadd_json env bus tk ch d src)) c = channels bus c"
    using acc by (simp add: channels_xadd_json)
  have "length (channels bus ch) = 1000 \<or> length (channels bus ch) < 1000"
    using b [rule_format, of ch] by arith
  then show "channels (snd (xadd_json env bus tk ch d src)) ch =
        (if length (channels bus ch) = 1000 then tl (channels bus ch) else channels bus ch) @
        [\<lparr>msg_id = the (message_id_of env tk ch d), msg_channel = ch, msg_data = d,
          msg_timestamp = t_message tk, msg_source = src\<rparr>]"
    using acc by (auto simp: channels_xadd_json deque_append_full deque_append_room)
qed

theorem channel_history_bounded_witness:
  "let env = \<lparr>date_parse = (\<lambda>s. None), float_str = (\<lambda>r. ''0'')\<rparr>;
       m = \<lparr>msg_id = PStr ''old'', msg_channel = ''news.processed'', msg_data = [],
            msg_timestamp = 0, msg_source = ''s''\<rparr>;
       bus = (EventBus_init 10000 3600 10)
               \<lparr>channels := (\<lambda>c. [])(''news.processed'' := replicate 1000 m)\<rparr>;
       r = xadd_json env bus (same_instant 5) ''news.processed'' [(''id'', PStr ''new'')] ''s''
   in (\<forall>c. length (channels bus c) \<le> 1000) \<and>
      fst r = Inr True \<and>
      length (channels bus ''news.processed'') = 1000 \<and>
      (\<forall>c. length (channels (snd r) c) \<le> 1000) \<and>
      channels (snd r) ''news.processed'' =
        replicate 999 m @
        [\<lparr>msg_id = PStr ''new'', msg_channel = ''news.processed'',
          msg_data = [(''id'', PStr ''new'')], msg_timestamp = 5, msg_source = ''s''\<rparr>]"
proof -
  define env where "env = \<lparr>date_parse = (\<lambda>s::string. None :: datetime option),
                              float_str = (\<lambda>r::rat. ''0'')\<rparr>"
  define m where "m = \<lparr>msg_id = PStr ''old'', msg_channel = ''news.processed'',
                        msg_data = [], msg_timestamp = 0, msg_source = ''s''\<rparr>"
  define bus where "bus = (EventBus_init 10000 3600 10)
               \<lparr>channels := (\<lambda>c. [])(''news.processed'' := replicate 1000 m)\<rparr>"
  define r where
    "r = xadd_json env bus (same_instant 5) ''news.processed'' [(''id'', PStr ''new'')] ''s''"
  define rl0 where "rl0 = RateLimiter_init 10 50 5"
  have bnd: "\<forall>c. length (channels bus c) \<le> 1000"
    by (simp add: bus_def)
  have mid: "message_id_of env (same_instant 5) ''news.processed'' [(''id'', PStr ''new'')]
               = Some (PStr ''new'')"
    by (simp add: message_id_of_def dict_get_default_def)
  have g: "get_rate_limiter bus ''s'' 5 = (rl0, bus\<lparr>rate_limiters := [(''s'', rl0)]\<rparr>)"
    by (simp add: bus_def EventBus_init_def get_rate_limiter_def py_int_def rl0_def Let_def)
  have a: "allow rl0 5 = (True, rl0\<lparr>tokens := 49\<rparr>)"
    by (simp add: allow_def rl0_def RateLimiter_init_def Let_def)
  have s: "seen_recent (bus\<lparr>rate_limiters := rls\<rparr>) (PStr ''new'') 5
             = (Inr False, bus\<lparr>rate_limiters := rls\<rparr>)" for rls
    by (simp add: bus_def EventBus_init_def seen_recent_def cleanup_recent_def
        enforce_max.simps fcard_fempty Let_def)
  have acc: "fst r = Inr True"
    by (simp add: r_def xadd_json_def mid g a s mark_seen_def)
  note th = channel_history_bounded [of 10000 3600 10 bus env "same_instant 5"
      "''news.processed''" "[(''id'', PStr ''new'')]" "''s''" PNone 0 0,
      THEN conjunct2, THEN mp, OF bnd, folded r_def]
  have c1: "\<forall>c. length (channels (snd r) c) \<le> 1000"
    using th by (rule conjunct1)
  have "channels (snd r) ''news.processed'' =
          (if length (channels bus ''news.processed'') = 1000
           then tl (channels bus ''news.processed'') else channels bus ''news.processed'') @
          [\<lparr>msg_id = the (message_id_of env (same_instant 5) ''news.processed''
                            [(''id'', PStr ''new'')]),
            msg_channel = ''news.processed'', msg_data = [(''id'', PStr ''new'')],
            msg_timestamp = t_message (same_instant 5), msg_source = ''s''\<rparr>]"
    using th acc by simp
  with c1 have "(\<forall>c. length (channels (snd r) c) \<le> 1000) \<and>
        channels (snd r) ''news.processed'' =
          (if length (channels bus ''news.processed'') = 1000
           then tl (channels bus ''news.processed'') else channels bus ''news.processed'') @
          [\<lparr>msg_id = the (message_id_of env (same_instant 5) ''news.processed''
                            [(''id'', PStr ''new'')]),
            msg_channel = ''news.processed'', msg_data = [(''id'', PStr ''new'')],
            msg_timestamp = t_message (same_instant 5), msg_source = ''s''\<rparr>]"
    by (rule conjI)
  then have "(\<forall>c. length (channels (snd r) c) \<le> 1000) \<and>
      channels (snd r) ''news.processed'' =
        replicate 999 m @
        [\<lparr>msg_id = PStr ''new'', msg_channel = ''news.processed'',
          msg_data = [(''id'', PStr ''new'')], msg_timestamp = 5, msg_source = ''s''\<rparr>]"
    by (simp add: mid bus_def)
  with bnd acc have "(\<forall>c. length (channels bus c) \<le> 1000) \<and>
      fst r = Inr True \<and>
      length (channels bus ''news.processed'') = 1000 \<and>
      (\<forall>c. length (channels (snd r) c) \<le> 1000) \<and>
      channels (snd r) ''news.processed'' =
        replicate 999 m @
        [\<lparr>msg_id = PStr ''new'', msg_channel = ''news.processed'',
          msg_data = [(''id'', PStr ''new'')], msg_timestamp = 5, msg_source = ''s''\<rparr>]"
    by (simp add: bus_def)
  then show ?thesis
    unfolding Let_def env_def m_def bus_def r_def .
qed


lemma oldest_entry_mem: "oldest_entry ts = Some p \<Longrightarrow> p \<in> set ts"
  by (induction ts arbitrary: p) (auto split: option.splits if_splits)















text \<open>A publish that passes validation, unfolded up to the dedup check.\<close>

lemma xadd_json_steps:
  assumes "message_id_of env tk ch d = Some mid" and "truthy mid"
  shows "xadd_json env bus tk ch d src =
     (let rl = fst (get_rate_limiter bus src (t_limiter_init tk));
          bus2 = bus\<lparr>rate_limiters :=
                   AList.update src (snd (allow rl (t_allow tk))) (rate_limiters bus)\<rparr>
      in if \<not> fst (allow rl (t_allow tk)) then (Inr False, bus2)
         else (case seen_recent bus2 mid (t_cleanup tk) of
                 (Inl e, bus3) \<Rightarrow> (Inl e, bus3)
               | (Inr seen, bus3) \<Rightarrow>
                   if seen then (Inr False, bus3)
                   else (case mark_seen
                          (bus3\<lparr>channels := (channels bus3)
                             (ch := deque_append 1000 (channels bus3 ch)
                                \<lparr>msg_id = mid, msg_channel = ch, msg_data = d,
                                 msg_timestamp = t_message tk, msg_source = src\<rparr>)\<rparr>)
                          mid (t_mark tk) of
                          (Some e, bus5) \<Rightarrow> (Inl e, bus5)
                        | (None, bus5) \<Rightarrow> (Inr True, bus5))))"
  using assms
  by (cases "map_of (rate_limiters bus) src")
     (auto simp add: xadd_json_def get_rate_limiter_def Let_def
        split: prod.splits sum.splits option.splits)


text \<open>An accepted publish, step by step: the facts a concrete evaluation has to supply.\<close>

lemma xadd_json_accept:
  assumes mid: "message_id_of env tk ch d = Some mid" and tr: "truthy mid"
    and key: "hash_key mid = Some k"
    and al: "allow (fst (get_rate_limiter bus src (t_limiter_init tk))) (t_allow tk) = (True, rl1)"
    and cl: "cleanup_recent (bus\<lparr>rate_limiters := AList.update src rl1 (rate_limiters bus)\<rparr>)
               (t_cleanup tk) = (None, bus3)"
    and fresh: "k |\<notin>| recent_ids bus3"
  shows "xadd_json env bus tk ch d src =
           (Inr True,
            bus3\<lparr>channels := (channels bus3)
                     (ch := deque_append 1000 (channels bus3 ch)
                        \<lparr>msg_id = mid, msg_channel = ch, msg_data = d,
                         msg_timestamp = t_message tk, msg_source = src\<rparr>),
                  recent_ids := finsert k (recent_ids bus3),
                  recent_timestamps := AList.update k (t_mark tk) (recent_timestamps bus3)\<rparr>)"
  unfolding xadd_json_steps [OF mid tr] Let_def
  using al cl fresh key by (simp add: seen_recent_def mark_seen_def)


lemma valid_example_item: "validate_raw_item example_env (example_item i)"
  by (simp add: validate_raw_item_def required_fields_def example_item_def dict_get_def
      parse_value_def example_env_def parse_iso8601_def parse_zone_def digit_value_def
      days_in_month_def)

lemma message_id_example:
  "message_id_of example_env tk ''news.raw'' (example_item i) = Some (PStr i)"
  using valid_example_item [of i]
  by (simp add: message_id_of_def) (simp add: example_item_def dict_get_def)


lemma fminus_finsert_single:
  "finsert x A |-| {|y|} = (if x = y then A |-| {|y|} else finsert x (A |-| {|y|}))"
  by auto

lemmas bus_eval = fminus_finsert_single
  EventBus_init_def get_rate_limiter_def RateLimiter_init_def py_int_def allow_def
  cleanup_recent_def enforce_max.simps oldest_entry.simps fcard_fempty fcard_finsert_if
  deque_append_def Let_def message_id_example




text \<open>
  C8 (as amended).  On the \<^verbatim>\<open>news.raw\<close> channel a structurally invalid item (a
  required field missing or empty, or \<^verbatim>\<open>published\<close> not parseable) is rejected before
  the rate limiter is looked at: the bus, with its limiters and histories, is unchanged.
\<close>

theorem invalid_item_rejected_untouched:
  "(\<exists>f \<in> set [''title'', ''link'', ''published'', ''source'', ''publisher''].
       \<not> truthy (dict_get d f)) \<or>
   parse_value env (dict_get d ''published'') = None \<Longrightarrow>
   xadd_json env bus tk ''news.raw'' d src = (Inr False, bus)"
  by (auto simp: xadd_json_def message_id_of_def validate_raw_item_def required_fields_def
      split: option.splits)

theorem invalid_item_rejected_untouched_witness:
  "\<not> truthy (dict_get [(''title'', PStr ''No Link'')] ''link'') \<and>
   xadd_json example_env (EventBus_init 10000 3600 10) (same_instant 0) ''news.raw''
     [(''title'', PStr ''No Link'')] ''test''
   = (Inr False, EventBus_init 10000 3600 10)"
proof -
  have h: "\<not> truthy (dict_get [(''title'', PStr ''No Link'')] ''link'')"
    by (simp add: dict_get_def)
  then have "(\<exists>f \<in> set [''title'', ''link'', ''published'', ''source'', ''publisher''].
       \<not> truthy (dict_get [(''title'', PStr ''No Link'')] f)) \<or>
     parse_value example_env (dict_get [(''title'', PStr ''No Link'')] ''published'') = None"
    by simp
  from h invalid_item_rejected_untouched [OF this] show ?thesis
    by (rule conjI)
qed

text \<open>
  C8 as stated fails on a channel other than \<^verbatim>\<open>news.raw\<close>: the validation is guarded
  by \<^verbatim>\<open>if channel == "news.raw"\<close> (line 157).  An item with no title, link or
  published date is accepted on \<^verbatim>\<open>news.processed\<close>, takes a token and enters the
  history.
\<close>

theorem invalid_item_other_channel_counterexample:
  "\<not> validate_raw_item example_env [(''id'', PStr ''x'')] \<and>
   fst (xadd_json example_env (EventBus_init 10000 3600 10) (same_instant 0)
          ''news.processed'' [(''id'', PStr ''x'')] ''s'') = Inr True \<and>
   map_of (rate_limiters (snd (xadd_json example_env (EventBus_init 10000 3600 10)
          (same_instant 0) ''news.processed'' [(''id'', PStr ''x'')] ''s''))) ''s''
     = Some \<lparr>tokens_per_second = 10, max_tokens = 50, tokens = 49, last_update = 0\<rparr> \<and>
   length (channels (snd (xadd_json example_env (EventBus_init 10000 3600 10)
          (same_instant 0) ''news.processed'' [(''id'', PStr ''x'')] ''s'')) ''news.processed'')
     = 1"
proof -
  define rl where "rl = \<lparr>tokens_per_second = 10, max_tokens = 50, tokens = 49,
      last_update = 0\<rparr>"
  define b0 where "b0 = EventBus_init 10000 3600 10"
  define b1 where "b1 = b0\<lparr>channels := (\<lambda>c. [])(''news.processed'' :=
        [\<lparr>msg_id = PStr ''x'', msg_channel = ''news.processed'',
          msg_data = [(''id'', PStr ''x'')], msg_timestamp = 0, msg_source = ''s''\<rparr>]),
      recent_ids := {|KStr ''x''|}, recent_timestamps := [(KStr ''x'', 0)],
      rate_limiters := [(''s'', rl)]\<rparr>"
  have v: "\<not> validate_raw_item example_env [(''id'', PStr ''x'')]"
    by (simp add: validate_raw_item_def required_fields_def dict_get_def)
  have m: "message_id_of example_env (same_instant 0) ''news.processed'' [(''id'', PStr ''x'')]
             = Some (PStr ''x'')"
    by (simp add: message_id_of_def dict_get_default_def)
  have s1: "xadd_json example_env b0 (same_instant 0) ''news.processed'' [(''id'', PStr ''x'')]
              ''s'' = (Inr True, b1)"
    by (subst xadd_json_accept [where mid = "PStr ''x''" and k = "KStr ''x''"
          and ?rl1.0 = rl and ?bus3.0 = "b0\<lparr>rate_limiters := [(''s'', rl)]\<rparr>"])
       (simp_all add: bus_eval m b0_def b1_def rl_def)
  show ?thesis
    unfolding b0_def [symmetric] s1 snd_conv fst_conv
    using v by (simp add: b1_def rl_def)
qed














end
